theory Spec2Isabelle
  imports Complex_Main "HOL-Library.Char_ord" "HOL-Library.List_Lexorder"
begin

section \<open>Values\<close>

text \<open>
  A cell of a sheet is a string, a row is a list of cells and a table is a list of rows,
  as the Sheets API returns them. Strings are ASCII: \<open>isspace\<close>, \<open>isdigit\<close> and
  \<open>lower\<close> are the restrictions of Python's methods to code points below 128.

  Python's \<open>float\<close> is modelled by \<open>real\<close>: arithmetic is exact, and rounding,
  infinities and NaN are outside the model. Python's \<open>int\<close> is \<open>int\<close>.
\<close>

type_synonym row = "string list"
type_synonym table = "row list"

datatype error = APIError | TypeError | IndexError | ValueError

datatype num = IntN int | FloatN real

text \<open>
  What a state file can hold once unpickled. The program itself writes \<open>None\<close>, a
  number, or a list of rows; the loader checks a list only for its length, so an entry
  of a loaded list need not be a row. \<open>Atom\<close> is an entry that is a number, on which
  \<open>len\<close> and slicing raise \<open>TypeError\<close>.
\<close>

datatype entry = Row row | Atom num

datatype blob = BNone | BNum num | BTable "entry list"

definition of_table :: "table \<Rightarrow> blob" where
  "of_table t = BTable (map Row t)"

fun num_val :: "num \<Rightarrow> real" where
  "num_val (IntN i) = of_int i"
| "num_val (FloatN r) = r"

text \<open>\<open>not x\<close>, \<open>len(x)\<close> and \<open>x[1]\<close> on a loaded value.\<close>

fun truthy :: "blob \<Rightarrow> bool" where
  "truthy BNone = False"
| "truthy (BNum n) = (num_val n \<noteq> 0)"
| "truthy (BTable t) = (t \<noteq> [])"

fun py_len :: "blob \<Rightarrow> error + nat" where
  "py_len (BTable t) = Inr (length t)"
| "py_len _ = Inl TypeError"

fun index1 :: "blob \<Rightarrow> error + entry" where
  "index1 (BTable t) = (if 1 < length t then Inr (t ! 1) else Inl IndexError)"
| "index1 _ = Inl TypeError"

fun is_number :: "blob \<Rightarrow> bool" where
  "is_number (BNum _) = True"
| "is_number _ = False"

section \<open>Strings\<close>

definition py_isspace :: "char \<Rightarrow> bool" where
  "py_isspace c = (c \<in> set [CHR '' '', CHR 0x09, CHR 0x0A, CHR 0x0B, CHR 0x0C, CHR 0x0D,
                              CHR 0x1C, CHR 0x1D, CHR 0x1E, CHR 0x1F])"

definition strip :: "string \<Rightarrow> string" where
  "strip s = rev (dropWhile py_isspace (rev (dropWhile py_isspace s)))"

definition digit_char :: "char \<Rightarrow> bool" where
  "digit_char c = (c \<in> set ''0123456789'')"

definition isdigit :: "string \<Rightarrow> bool" where
  "isdigit s = (s \<noteq> [] \<and> list_all digit_char s)"

definition lower_char :: "char \<Rightarrow> char" where
  "lower_char c = (if c \<in> set ''ABCDEFGHIJKLMNOPQRSTUVWXYZ''
                   then char_of (of_char c + (32::nat)) else c)"

definition lower :: "string \<Rightarrow> string" where
  "lower s = map lower_char s"

text \<open>\<open>s.replace(',', '')\<close>\<close>

definition remove_commas :: "string \<Rightarrow> string" where
  "remove_commas s = filter (\<lambda>c. c \<noteq> CHR '','') s"

section \<open>Snapshot store\<close>

text \<open>
  The four state files. \<open>diff_state\<close> is the test \<open>'diff_state' in state_file\<close> on
  the paths \<open>previous_stock_state.pickle\<close>, \<open>previous_parts_state.pickle\<close>,
  \<open>previous_whole_chicken_diff_state.pickle\<close> and
  \<open>previous_gizzard_diff_state.pickle\<close> (the data directory is taken not to contain
  that substring). The store maps a file to its content; an absent or unreadable file is
  \<open>None\<close>. Writing a file succeeds: input and output errors of the file system are
  outside the model.
\<close>

datatype state_file =
  STOCK_STATE_FILE | PARTS_STATE_FILE | WHOLE_CHICKEN_DIFF_STATE_FILE | GIZZARD_DIFF_STATE_FILE

type_synonym store = "state_file \<Rightarrow> blob option"

fun diff_state :: "state_file \<Rightarrow> bool" where
  "diff_state STOCK_STATE_FILE = False"
| "diff_state PARTS_STATE_FILE = False"
| "diff_state WHOLE_CHICKEN_DIFF_STATE_FILE = True"
| "diff_state GIZZARD_DIFF_STATE_FILE = True"

definition load_previous_state :: "state_file \<Rightarrow> store \<Rightarrow> blob" where
  "load_previous_state state_file st =
     (case st state_file of
        None \<Rightarrow> BNone
      | Some data \<Rightarrow>
          if diff_state state_file then
            (if \<not> is_number data \<and> data \<noteq> BNone then BNone else data)
          else if \<not> truthy data then BNone
          else (case py_len data of
                  Inl e \<Rightarrow> BNone
                | Inr n \<Rightarrow> if n < 2 then BNone else data))"

definition save_current_state :: "blob \<Rightarrow> state_file \<Rightarrow> store \<Rightarrow> (error + unit) \<times> store" where
  "save_current_state state state_file st =
     (if diff_state state_file then
        (if \<not> is_number state \<and> state \<noteq> BNone then (Inr (), st)
         else (Inr (), st(state_file \<mapsto> state)))
      else if \<not> truthy state then (Inr (), st)
      else (case py_len state of
              Inl e \<Rightarrow> (Inl e, st)
            | Inr n \<Rightarrow> if n < 2 then (Inr (), st)
                       else (Inr (), st(state_file \<mapsto> state))))"

section \<open>Tabular comparators\<close>

text \<open>A change is the tuple \<open>(label, old value, new value)\<close>.\<close>

type_synonym change = "string \<times> string \<times> string"

text \<open>
  The comparison loop of both comparators: for each index, both cells are stripped and
  compared, and a differing pair appends the header with the two unstripped cells.
  \<open>bound\<close> is the range of the loop.
\<close>

definition compare_cells :: "nat \<Rightarrow> row \<Rightarrow> row \<Rightarrow> row \<Rightarrow> change list" where
  "compare_cells bound headers prev_row curr_row =
     map (\<lambda>i. (headers ! i, prev_row ! i, curr_row ! i))
         (filter (\<lambda>i. strip (prev_row ! i) \<noteq> strip (curr_row ! i)) [0..<bound])"

text \<open>
  \<open>detect_stock_changes\<close>: every exception raised inside the \<open>try\<close> block is turned
  into \<open>APIError\<close>. The loop indexes \<open>prev_row\<close>, \<open>curr_row\<close> and \<open>headers\<close> below
  their common length only.
\<close>

definition detect_stock_changes ::
  "blob \<Rightarrow> table \<Rightarrow> store \<Rightarrow> (error + change list) \<times> store" where
  "detect_stock_changes previous_data current_data st =
     (if \<not> truthy previous_data then (Inr [], st)
      else case index1 previous_data of
        Inl e \<Rightarrow> (Inl APIError, st)
      | Inr prev_entry \<Rightarrow>
          if \<not> 1 < length current_data then (Inl APIError, st)
          else let curr_row = current_data ! 1; headers = current_data ! 0 in
            (case prev_entry of
               Atom n \<Rightarrow> (Inl APIError, st)
             | Row prev_row \<Rightarrow>
                 if length prev_row \<noteq> length curr_row \<or> length headers \<noteq> length curr_row
                 then (case save_current_state (of_table current_data) STOCK_STATE_FILE st of
                         (Inl e, st') \<Rightarrow> (Inl APIError, st')
                       | (Inr u, st') \<Rightarrow> (Inr [], st'))
                 else (Inr (compare_cells (length prev_row) headers prev_row curr_row), st)))"

text \<open>
  \<open>detect_parts_changes\<close>. The three rows are taken without their first column;
  the previous one comes from a loaded value, where \<open>len\<close> can raise.
\<close>

definition part_headers_of :: "table \<Rightarrow> row" where
  "part_headers_of current_data =
     (if 0 < length current_data \<and> 1 < length (current_data ! 0)
      then tl (current_data ! 0) else [])"

definition curr_values_of :: "table \<Rightarrow> row" where
  "curr_values_of current_data =
     (if 1 < length current_data \<and> 1 < length (current_data ! 1)
      then tl (current_data ! 1) else [])"

fun prev_values_of :: "blob \<Rightarrow> error + row" where
  "prev_values_of (BTable t) =
     (if 1 < length t then
        (case t ! 1 of
           Row r \<Rightarrow> Inr (if 1 < length r then tl r else [])
         | Atom n \<Rightarrow> Inl TypeError)
      else Inr [])"
| "prev_values_of _ = Inl TypeError"

text \<open>The trimming when headers and current values differ in length.\<close>

definition trim_parts :: "row \<Rightarrow> row \<Rightarrow> row \<Rightarrow> row \<times> row \<times> row" where
  "trim_parts part_headers prev_values curr_values =
     (if length part_headers \<noteq> length curr_values then
        let compare_length = min (length part_headers) (length curr_values) in
          (take compare_length part_headers,
           (if length prev_values > compare_length then take compare_length prev_values
            else prev_values),
           take compare_length curr_values)
      else (part_headers, prev_values, curr_values))"

text \<open>Padding or trimming of the previous values to the current ones.\<close>

definition pad_prev :: "row \<Rightarrow> row \<Rightarrow> row" where
  "pad_prev prev_values curr_values =
     (if length prev_values < length curr_values
      then prev_values @ replicate (length curr_values - length prev_values) []
      else if length prev_values > length curr_values
      then take (length curr_values) prev_values
      else prev_values)"

text \<open>The loop: an index outside either row of values is skipped.\<close>

definition compare_parts :: "row \<Rightarrow> row \<Rightarrow> row \<Rightarrow> change list" where
  "compare_parts part_headers prev_values curr_values =
     map (\<lambda>i. (part_headers ! i, prev_values ! i, curr_values ! i))
         (filter (\<lambda>i. \<not> (i \<ge> length prev_values \<or> i \<ge> length curr_values)
                      \<and> strip (prev_values ! i) \<noteq> strip (curr_values ! i))
                 [0..<length part_headers])"

definition parts_body :: "row \<Rightarrow> row \<Rightarrow> row \<Rightarrow> change list" where
  "parts_body part_headers prev_values curr_values =
     (case trim_parts part_headers prev_values curr_values of
        (ph, pv, cv) \<Rightarrow> compare_parts ph (pad_prev pv cv) cv)"

text \<open>
  An exception in the \<open>try\<close> block is caught: the current snapshot is saved to the
  parts state file and no change is returned. An exception of that save is not caught.
\<close>

definition detect_parts_changes ::
  "blob \<Rightarrow> table \<Rightarrow> store \<Rightarrow> (error + change list) \<times> store" where
  "detect_parts_changes previous_data current_data st =
     (if \<not> truthy previous_data then (Inr [], st)
      else case prev_values_of previous_data of
        Inr prev_values \<Rightarrow>
          (Inr (parts_body (part_headers_of current_data) prev_values
                  (curr_values_of current_data)), st)
      | Inl e \<Rightarrow>
          (case save_current_state (of_table current_data) PARTS_STATE_FILE st of
             (Inl e', st') \<Rightarrow> (Inl e', st')
           | (Inr u, st') \<Rightarrow> (Inr [], st')))"

section \<open>Scalar comparators\<close>

type_synonym diff_change = "string \<times> blob \<times> blob"

fun entry_eq :: "entry \<Rightarrow> entry \<Rightarrow> bool" where
  "entry_eq (Row a) (Row b) = (a = b)"
| "entry_eq (Atom a) (Atom b) = (num_val a = num_val b)"
| "entry_eq _ _ = False"

text \<open>Python's \<open>==\<close>: numbers compare by value, an \<open>int\<close> equals the \<open>float\<close> of the same value.\<close>

fun py_eq :: "blob \<Rightarrow> blob \<Rightarrow> bool" where
  "py_eq BNone BNone = True"
| "py_eq (BNum a) (BNum b) = (num_val a = num_val b)"
| "py_eq (BTable a) (BTable b) = list_all2 entry_eq a b"
| "py_eq _ _ = False"

text \<open>The comparison \<open>!=\<close> raises on none of these values, so the handler is never entered.\<close>

definition detect_chicken_difference_changes :: "blob \<Rightarrow> blob \<Rightarrow> diff_change list" where
  "detect_chicken_difference_changes previous_chicken_diff current_chicken_diff =
     (if previous_chicken_diff = BNone then []
      else if current_chicken_diff \<noteq> BNone \<and> \<not> py_eq previous_chicken_diff current_chicken_diff
      then [(''Whole Chicken Balance Difference'', previous_chicken_diff, current_chicken_diff)]
      else [])"

text \<open>The subtraction raises \<open>TypeError\<close> unless both operands are numbers.\<close>

definition detect_gizzard_difference_changes :: "blob \<Rightarrow> blob \<Rightarrow> error + diff_change list" where
  "detect_gizzard_difference_changes previous_gizzard_diff current_gizzard_diff =
     (if previous_gizzard_diff = BNone then Inr []
      else if current_gizzard_diff \<noteq> BNone then
        (case (previous_gizzard_diff, current_gizzard_diff) of
           (BNum p, BNum c) \<Rightarrow>
             if \<bar>num_val p - num_val c\<bar> \<ge> 0.01
             then Inr [(''Gizzard Balance Difference'', previous_gizzard_diff, current_gizzard_diff)]
             else Inr []
         | _ \<Rightarrow> Inl APIError)
      else Inr [])"

section \<open>Reconciliation\<close>

text \<open>
  \<open>float(s)\<close> on a string. The model reads an optional sign, digits and at most one
  decimal point, between optional whitespace; every other string is \<open>ValueError\<close>
  (\<open>None\<close>). Exponents, underscores between digits and the words \<open>inf\<close> and \<open>nan\<close>,
  which Python also reads, are not modelled.
\<close>

definition nat_of_digits :: "string \<Rightarrow> nat" where
  "nat_of_digits s = foldl (\<lambda>a c. 10 * a + (of_char c - 48)) 0 s"

definition py_float :: "string \<Rightarrow> real option" where
  "py_float s =
     (let t = strip s;
          neg = (t \<noteq> [] \<and> hd t = CHR ''-'');
          body = (if t \<noteq> [] \<and> (hd t = CHR ''-'' \<or> hd t = CHR ''+'') then tl t else t);
          ip = takeWhile digit_char body;
          rest = dropWhile digit_char body;
          sgn = (if neg then - 1 else 1)
      in case rest of
           [] \<Rightarrow> if ip = [] then None else Some (sgn * real (nat_of_digits ip))
         | c # fp \<Rightarrow>
             if c = CHR ''.'' \<and> list_all digit_char fp \<and> (ip \<noteq> [] \<or> fp \<noteq> [])
             then Some (sgn * (real (nat_of_digits ip) + real (nat_of_digits fp) / 10 ^ length fp))
             else None)"

text \<open>\<open>int(x)\<close> on a float truncates toward zero.\<close>

definition py_int :: "real \<Rightarrow> int" where
  "py_int x = (if 0 \<le> x then \<lfloor>x\<rfloor> else \<lceil>x\<rceil>)"

text \<open>\<open>headers.index(name)\<close>; \<open>None\<close> is its \<open>ValueError\<close>.\<close>

fun index_of :: "'a \<Rightarrow> 'a list \<Rightarrow> nat option" where
  "index_of x [] = None"
| "index_of x (y # ys) = (if x = y then Some 0 else map_option Suc (index_of x ys))"

text \<open>The loop that looks for the row of the current month and stops at the first one.\<close>

fun find_month_row :: "nat \<Rightarrow> string \<Rightarrow> table \<Rightarrow> row option" where
  "find_month_row year_month_col_index current_year_month [] = None"
| "find_month_row year_month_col_index current_year_month (r # rows) =
     (if length r > year_month_col_index \<and> r ! year_month_col_index = current_year_month
      then Some r
      else find_month_row year_month_col_index current_year_month rows)"

definition month_key :: "nat \<Rightarrow> row \<Rightarrow> string" where
  "month_key year_month_col_index x =
     (if length x > year_month_col_index then x ! year_month_col_index else [])"

text \<open>
  \<open>sorted(rows, key=..., reverse=True)\<close>: descending by key, rows of equal key in their
  original order. Strings are ordered lexicographically by code point.
\<close>

fun insert_desc :: "('a \<Rightarrow> string) \<Rightarrow> 'a \<Rightarrow> 'a list \<Rightarrow> 'a list" where
  "insert_desc key x [] = [x]"
| "insert_desc key x (y # ys) =
     (if key x < key y then y # insert_desc key x ys else x # y # ys)"

definition sorted_desc :: "('a \<Rightarrow> string) \<Rightarrow> 'a list \<Rightarrow> 'a list" where
  "sorted_desc key xs = foldr (insert_desc key) xs []"

text \<open>
  The row the balance is read from. In the fallback the log line reads the month cell
  of the chosen row; on a row too short for it the \<open>IndexError\<close> ends the function
  with \<open>None\<close>.
\<close>

definition select_row :: "nat \<Rightarrow> string \<Rightarrow> table \<Rightarrow> row option" where
  "select_row year_month_col_index current_year_month data_rows =
     (case find_month_row year_month_col_index current_year_month data_rows of
        Some r \<Rightarrow> Some r
      | None \<Rightarrow>
          (case sorted_desc (month_key year_month_col_index) data_rows of
             [] \<Rightarrow> None
           | r # rest \<Rightarrow> if year_month_col_index < length r then Some r else None))"

text \<open>
  The body shared by \<open>get_inventory_balance\<close> and \<open>get_gizzard_inventory_balance\<close>,
  which differ in the name of the balance column only. \<open>data\<close> is the table the API
  returns and \<open>current_year_month\<close> the month of the clock in the \<open>%Y-%m\<close> format.
\<close>

definition balance_of_column :: "string \<Rightarrow> string \<Rightarrow> table \<Rightarrow> real option" where
  "balance_of_column column current_year_month data =
     (if data = [] then None
      else if length data < 2 then None
      else let headers = data ! 0 in
        case index_of column headers of
          None \<Rightarrow> None
        | Some balance_col_index \<Rightarrow>
            (case index_of ''year_month'' headers of
               None \<Rightarrow> None
             | Some year_month_col_index \<Rightarrow>
                 (case select_row year_month_col_index current_year_month (tl data) of
                    None \<Rightarrow> None
                  | Some current_month_row \<Rightarrow>
                      if length current_month_row > balance_col_index
                      then py_float (current_month_row ! balance_col_index)
                      else None)))"

definition get_inventory_balance :: "string \<Rightarrow> table \<Rightarrow> real option" where
  "get_inventory_balance = balance_of_column ''whole_chicken_quantity_stock_balance''"

definition get_gizzard_inventory_balance :: "string \<Rightarrow> table \<Rightarrow> real option" where
  "get_gizzard_inventory_balance = balance_of_column ''gizzard_weight_stock_balance''"

text \<open>
  \<open>calculate_total_pieces\<close>. The digit test is made on the stripped value without its
  commas, the conversion on the value itself. \<open>IndexError\<close> on a value row shorter than
  the headers is not caught by the inner handler and ends the function with \<open>None\<close>.
\<close>

definition pieces_step :: "row \<Rightarrow> row \<Rightarrow> nat \<Rightarrow> int \<Rightarrow> error + int" where
  "pieces_step headers values i tot =
     (let header = lower (headers ! i) in
        if header \<noteq> ''specification'' \<and> header \<noteq> ''gizzard'' \<and> header \<noteq> ''total'' then
          (if \<not> i < length values then Inl IndexError
           else let val = values ! i in
             if isdigit (remove_commas (strip val)) then
               (case py_float val of
                  None \<Rightarrow> Inr tot
                | Some f \<Rightarrow> Inr (tot + py_int f))
             else Inr tot)
        else Inr tot)"

fun pieces_loop :: "row \<Rightarrow> row \<Rightarrow> nat list \<Rightarrow> int \<Rightarrow> error + int" where
  "pieces_loop headers values [] tot = Inr tot"
| "pieces_loop headers values (i # rest) tot =
     (case pieces_step headers values i tot of
        Inl e \<Rightarrow> Inl e
      | Inr tot' \<Rightarrow> pieces_loop headers values rest tot')"

definition calculate_total_pieces :: "table \<Rightarrow> int option" where
  "calculate_total_pieces stock_data =
     (if \<not> 1 < length stock_data then None
      else let headers = stock_data ! 0; values = stock_data ! 1 in
        case pieces_loop headers values [0..<length headers] 0 of
          Inl e \<Rightarrow> None
        | Inr tot \<Rightarrow> Some tot)"

text \<open>The loop that reads the gizzard weight and stops at the first gizzard header.\<close>

fun gizzard_loop :: "row \<Rightarrow> row \<Rightarrow> nat list \<Rightarrow> error + real" where
  "gizzard_loop headers values [] = Inr 0"
| "gizzard_loop headers values (i # rest) =
     (if lower (headers ! i) = ''gizzard'' then
        (if \<not> i < length values then Inl IndexError
         else case py_float (values ! i) of
                None \<Rightarrow> Inr 0
              | Some f \<Rightarrow> Inr f)
      else gizzard_loop headers values rest)"

definition calculate_current_differences ::
  "table \<Rightarrow> real option \<Rightarrow> real option \<Rightarrow> blob \<times> blob" where
  "calculate_current_differences stock_data inventory_balance gizzard_inventory_balance =
     (let total_pieces = calculate_total_pieces stock_data;
          whole_chicken_diff =
            (case (total_pieces, inventory_balance) of
               (Some t, Some b) \<Rightarrow> BNum (IntN (py_int (of_int t - b)))
             | _ \<Rightarrow> BNone)
      in if \<not> 1 < length stock_data then (BNone, BNone)
         else let headers = stock_data ! 0; values = stock_data ! 1 in
           case gizzard_loop headers values [0..<length headers] of
             Inl e \<Rightarrow> (BNone, BNone)
           | Inr current_gizzard_weight \<Rightarrow>
               (whole_chicken_diff,
                (case gizzard_inventory_balance of
                   Some g \<Rightarrow> if current_gizzard_weight > 0
                             then BNum (FloatN (current_gizzard_weight - g)) else BNone
                 | None \<Rightarrow> BNone)))"

section \<open>Alert\<close>

text \<open>
  Of the alert only the control flow is modelled: whether building the message raises
  and what the function returns; the text of the message is not. In
  \<open>format_stock_section\<close> the loop over the current stock levels reads \<open>values[i]\<close>
  for every header other than the specification column, inside a handler for
  \<open>ValueError\<close> and \<open>TypeError\<close> only, so the \<open>IndexError\<close> of a value row shorter
  than the headers leaves the function. The conversions in that loop and in the loops
  over the changes raise \<open>ValueError\<close> at most, which their handlers catch, and
  \<open>format_parts_section\<close> bounds its loop by the shorter row: neither adds a way out.
\<close>

fun stock_levels_loop :: "row \<Rightarrow> row \<Rightarrow> nat list \<Rightarrow> error + unit" where
  "stock_levels_loop headers values [] = Inr ()"
| "stock_levels_loop headers values (i # rest) =
     (if lower (headers ! i) \<noteq> ''specification'' \<and> \<not> i < length values then Inl IndexError
      else stock_levels_loop headers values rest)"

definition format_stock_section :: "table \<Rightarrow> error + unit" where
  "format_stock_section stock_data =
     (if \<not> 1 < length stock_data then Inl IndexError
      else let headers = stock_data ! 0; values = stock_data ! 1 in
        stock_levels_loop headers values [0..<length headers])"

text \<open>
  The lines of the difference changes apply \<open>abs\<close> and a numeric format to the old and
  the new value, which raise \<open>TypeError\<close> on a value that is not a number.
\<close>

definition format_difference_changes :: "diff_change list \<Rightarrow> error + unit" where
  "format_difference_changes difference_changes =
     (if list_all (\<lambda>(change_type, old_val, new_val). is_number old_val \<and> is_number new_val)
           difference_changes
      then Inr () else Inl TypeError)"

text \<open>
  \<open>post_ok\<close> is the outcome of the request: \<open>False\<close> stands for a
  \<open>RequestException\<close>, the only exception the function catches.
\<close>

definition send_combined_alert ::
  "bool \<Rightarrow> change list \<Rightarrow> table \<Rightarrow> change list \<Rightarrow> table \<Rightarrow> diff_change list
     \<Rightarrow> diff_change list \<Rightarrow> error + bool" where
  "send_combined_alert post_ok stock_changes stock_data parts_changes parts_data
       chicken_difference_changes gizzard_difference_changes =
     (if stock_changes = [] \<and> parts_changes = [] \<and> chicken_difference_changes = []
          \<and> gizzard_difference_changes = [] then Inr True
      else case format_difference_changes
                  (chicken_difference_changes @ gizzard_difference_changes) of
        Inl e \<Rightarrow> Inl e
      | Inr u \<Rightarrow>
          (case format_stock_section stock_data of
             Inl e \<Rightarrow> Inl e
           | Inr u' \<Rightarrow> Inr post_ok))"

section \<open>The run\<close>

definition get_sheet_data :: "table \<Rightarrow> error + table" where
  "get_sheet_data data = (if data = [] \<or> length data < 2 then Inl APIError else Inr data)"

text \<open>The four saves at the end of \<open>main\<close>, in their order.\<close>

definition save_all_states :: "table \<Rightarrow> table \<Rightarrow> blob \<Rightarrow> blob \<Rightarrow> store \<Rightarrow> (error + unit) \<times> store" where
  "save_all_states stock_data parts_data current_chicken_diff current_gizzard_diff st =
     (case save_current_state (of_table stock_data) STOCK_STATE_FILE st of
        (Inl e, s1) \<Rightarrow> (Inl e, s1)
      | (Inr u1, s1) \<Rightarrow>
     (case save_current_state (of_table parts_data) PARTS_STATE_FILE s1 of
        (Inl e, s2) \<Rightarrow> (Inl e, s2)
      | (Inr u2, s2) \<Rightarrow>
     (case save_current_state current_chicken_diff WHOLE_CHICKEN_DIFF_STATE_FILE s2 of
        (Inl e, s3) \<Rightarrow> (Inl e, s3)
      | (Inr u3, s3) \<Rightarrow>
          save_current_state current_gizzard_diff GIZZARD_DIFF_STATE_FILE s3)))"

text \<open>
  The \<open>try\<close> block of \<open>main\<close>. Its inputs are the webhook address of the
  environment, the values the API returns for the two ranges of the specification sheet
  and for the inventory sheet, the month of the clock and the outcome of the request.
  The result is the exception that left the block, if any, and the store at that point.
\<close>

definition main_try ::
  "string option \<Rightarrow> table \<Rightarrow> table \<Rightarrow> table \<Rightarrow> string \<Rightarrow> bool \<Rightarrow> store
     \<Rightarrow> (error + unit) \<times> store" where
  "main_try webhook_url stock_values parts_values inventory_values current_year_month post_ok st =
     (if webhook_url = None \<or> webhook_url = Some [] then (Inl ValueError, st)
      else case get_sheet_data stock_values of
        Inl e \<Rightarrow> (Inl e, st)
      | Inr stock_data \<Rightarrow>
     (case get_sheet_data parts_values of
        Inl e \<Rightarrow> (Inl e, st)
      | Inr parts_data \<Rightarrow>
     (let inventory_balance = get_inventory_balance current_year_month inventory_values;
          gizzard_inventory_balance =
            get_gizzard_inventory_balance current_year_month inventory_values;
          previous_stock_data = load_previous_state STOCK_STATE_FILE st;
          previous_parts_data = load_previous_state PARTS_STATE_FILE st;
          previous_chicken_diff = load_previous_state WHOLE_CHICKEN_DIFF_STATE_FILE st;
          previous_gizzard_diff = load_previous_state GIZZARD_DIFF_STATE_FILE st;
          current_diffs =
            calculate_current_differences stock_data inventory_balance gizzard_inventory_balance;
          current_chicken_diff = fst current_diffs;
          current_gizzard_diff = snd current_diffs
      in case (if \<not> truthy previous_stock_data then (Inr [], st)
               else detect_stock_changes previous_stock_data stock_data st) of
        (Inl e, s1) \<Rightarrow> (Inl e, s1)
      | (Inr stock_changes, s1) \<Rightarrow>
     (case (if \<not> truthy previous_parts_data then (Inr [], s1)
            else detect_parts_changes previous_parts_data parts_data s1) of
        (Inl e, s2) \<Rightarrow> (Inl e, s2)
      | (Inr parts_changes, s2) \<Rightarrow>
     (let chicken_difference_changes =
            (if previous_chicken_diff = BNone then []
             else detect_chicken_difference_changes previous_chicken_diff current_chicken_diff)
      in case (if previous_gizzard_diff = BNone then Inr []
               else detect_gizzard_difference_changes previous_gizzard_diff current_gizzard_diff) of
        Inl e \<Rightarrow> (Inl e, s2)
      | Inr gizzard_difference_changes \<Rightarrow>
     (case (if stock_changes \<noteq> [] \<or> parts_changes \<noteq> [] \<or> chicken_difference_changes \<noteq> []
               \<or> gizzard_difference_changes \<noteq> []
            then send_combined_alert post_ok stock_changes stock_data parts_changes parts_data
                   chicken_difference_changes gizzard_difference_changes
            else Inr True) of
        Inl e \<Rightarrow> (Inl e, s2)
      | Inr sent \<Rightarrow>
          save_all_states stock_data parts_data current_chicken_diff current_gizzard_diff
            s2))))))"

text \<open>\<open>main\<close> catches and logs every exception; what remains of a run is the store.\<close>

definition main ::
  "string option \<Rightarrow> table \<Rightarrow> table \<Rightarrow> table \<Rightarrow> string \<Rightarrow> bool \<Rightarrow> store \<Rightarrow> store" where
  "main webhook_url stock_values parts_values inventory_values current_year_month post_ok st =
     snd (main_try webhook_url stock_values parts_values inventory_values current_year_month
            post_ok st)"


section \<open>Properties\<close>

subsection \<open>Auxiliary facts\<close>

lemma truthy_of_table: "truthy (of_table t) = (t \<noteq> [])"
  by (simp add: of_table_def)

lemma index1_of_table: "1 < length t \<Longrightarrow> index1 (of_table t) = Inr (Row (t ! 1))"
  by (simp add: of_table_def)

lemma prev_values_of_table: "prev_values_of (of_table t) = Inr (curr_values_of t)"
  by (simp add: of_table_def curr_values_of_def)

lemma save_table:
  "\<not> diff_state f \<Longrightarrow> 2 \<le> length t \<Longrightarrow>
     save_current_state (of_table t) f st = (Inr (), st(f \<mapsto> of_table t))"
  by (auto simp: save_current_state_def of_table_def)

lemma compare_cells_same: "compare_cells n h r r = []"
  by (simp add: compare_cells_def)

lemma compare_parts_same: "compare_parts h r r = []"
  by (simp add: compare_parts_def)

lemma pad_prev_same: "pad_prev r r = r"
  by (simp add: pad_prev_def)

lemma parts_body_same: "parts_body h r r = []"
proof -
  obtain ph pv cv where t: "trim_parts h r r = (ph, pv, cv)"
    by (cases "trim_parts h r r") auto
  then have "pv = cv"
    by (auto simp: trim_parts_def Let_def min_def split: if_splits)
  with t show ?thesis
    by (simp add: parts_body_def pad_prev_same compare_parts_same)
qed

subsection \<open>Positional comparator\<close>

text \<open>
  C3: when the previous value row, the current value row and the current header row do
  not all have the same length, \<open>detect_stock_changes\<close> returns no change and the
  stock state file holds the current snapshot afterwards.
\<close>

theorem C3_length_mismatch_resets_baseline:
  assumes "2 \<le> length prev" and "2 \<le> length current_data"
      and "\<not> (length (prev ! 1) = length (current_data ! 1)
              \<and> length (current_data ! 1) = length (current_data ! 0))"
  shows "detect_stock_changes (of_table prev) current_data st =
           (Inr [], st(STOCK_STATE_FILE \<mapsto> of_table current_data))"
proof -
  from assms(1) have p: "prev \<noteq> []" "1 < length prev" by auto
  from assms(2) have c: "1 < length current_data" by auto
  show ?thesis
    using p c assms(2,3)
    by (auto simp: detect_stock_changes_def truthy_of_table index1_of_table save_table)
qed

theorem C3_witness:
  "detect_stock_changes (of_table [[''A'', ''B''], [''1'', ''2'']])
       [[''A'', ''B'', ''C''], [''1'', ''2'', ''3'']] Map.empty =
     (Inr [], Map.empty(STOCK_STATE_FILE \<mapsto>
        of_table [[''A'', ''B'', ''C''], [''1'', ''2'', ''3'']]))"
  using C3_length_mismatch_resets_baseline
    [of "[[''A'', ''B''], [''1'', ''2'']]" "[[''A'', ''B'', ''C''], [''1'', ''2'', ''3'']]"
        Map.empty]
  by simp

subsection \<open>Comparing a snapshot with itself\<close>

text \<open>
  C7: a snapshot whose header row and value row have the same length, compared with
  itself, gives no change in \<open>detect_stock_changes\<close> and in \<open>detect_parts_changes\<close>,
  and neither writes a state file.
\<close>

theorem C7_self_comparison_yields_no_change:
  assumes "2 \<le> length d" and "length (d ! 0) = length (d ! 1)"
  shows "detect_stock_changes (of_table d) d st = (Inr [], st)
       \<and> detect_parts_changes (of_table d) d st = (Inr [], st)"
proof -
  from assms(1) have ne: "d \<noteq> []" and l: "1 < length d" by auto
  have "detect_stock_changes (of_table d) d st = (Inr [], st)"
    using assms(2) l ne
    by (simp add: detect_stock_changes_def truthy_of_table index1_of_table compare_cells_same)
  moreover have "detect_parts_changes (of_table d) d st = (Inr [], st)"
    using ne
    by (simp add: detect_parts_changes_def truthy_of_table prev_values_of_table parts_body_same)
  ultimately show ?thesis by simp
qed

theorem C7_witness:
  "detect_stock_changes (of_table [[''Breast'', ''Wing''], [''10'', ''5'']])
       [[''Breast'', ''Wing''], [''10'', ''5'']] Map.empty = (Inr [], Map.empty)
   \<and> detect_parts_changes (of_table [[''Breast'', ''Wing''], [''10'', ''5'']])
       [[''Breast'', ''Wing''], [''10'', ''5'']] Map.empty = (Inr [], Map.empty)"
  using C7_self_comparison_yields_no_change [of "[[''Breast'', ''Wing''], [''10'', ''5'']]" Map.empty]
  by simp

subsection \<open>Tolerance comparator\<close>



subsection \<open>Failure policy of the named comparator\<close>



subsection \<open>Comparison rule\<close>







subsection \<open>Columns that appear\<close>







subsection \<open>Period selection\<close>

lemma insert_desc_set: "set (insert_desc key x ys) = insert x (set ys)"
  by (induction ys) auto

lemma insert_desc_not_Nil: "insert_desc key x ys \<noteq> []"
  by (cases ys) auto

lemma hd_insert_desc:
  "hd (insert_desc key x ys) = (if ys \<noteq> [] \<and> key x < key (hd ys) then hd ys else x)"
  by (cases ys) auto

lemma sorted_desc_Cons: "sorted_desc key (x # xs) = insert_desc key x (sorted_desc key xs)"
  by (simp add: sorted_desc_def)

lemma sorted_desc_set: "set (sorted_desc key xs) = set xs"
  by (induction xs) (simp_all add: sorted_desc_Cons insert_desc_set, simp add: sorted_desc_def)

lemma sorted_desc_Nil_iff: "sorted_desc key xs = [] \<longleftrightarrow> xs = []"
  by (cases xs) (simp_all add: sorted_desc_Cons insert_desc_not_Nil, simp add: sorted_desc_def)

lemma hd_sorted_desc_greatest:
  "xs \<noteq> [] \<Longrightarrow> \<forall>y \<in> set xs. key y \<le> key (hd (sorted_desc key xs))"
proof (induction xs)
  case Nil
  then show ?case by simp
next
  case (Cons x xs)
  show ?case
  proof (cases "xs = []")
    case True
    then show ?thesis by (simp add: sorted_desc_def)
  next
    case False
    with Cons.IH have ih: "\<forall>y \<in> set xs. key y \<le> key (hd (sorted_desc key xs))" by simp
    from False have ne: "sorted_desc key xs \<noteq> []" by (simp add: sorted_desc_Nil_iff)
    show ?thesis
      using ih ne by (auto simp: sorted_desc_Cons hd_insert_desc)
  qed
qed

lemma find_month_row_no_match:
  "\<forall>r \<in> set rows. \<not> (ym < length r \<and> r ! ym = cur) \<Longrightarrow> find_month_row ym cur rows = None"
  by (induction rows) auto

text \<open>
  C6: when the header names the month column and the balance column and no data row has
  the current month in its month cell, the balance is read from a data row whose month
  value is greatest in the lexicographic order among all data rows (a row without that
  cell counts as the empty string; the balance is \<open>None\<close> when the chosen row lacks
  the month or the balance cell). With the months 2024-11, 2024-12 and 2025-01 and the
  current month 2025-02 the balance is the one of 2025-01.
\<close>

theorem C6_fallback_takes_greatest_month:
  assumes "rows \<noteq> []"
      and "index_of column headers = Some b"
      and "index_of ''year_month'' headers = Some ym"
      and "\<forall>r \<in> set rows. \<not> (ym < length r \<and> r ! ym = cur)"
  shows "(\<exists>r \<in> set rows. (\<forall>r' \<in> set rows. month_key ym r' \<le> month_key ym r)
            \<and> balance_of_column column cur (headers # rows) =
                (if ym < length r \<and> b < length r then py_float (r ! b) else None))
       \<and> get_inventory_balance ''2025-02''
            [[''year_month'', ''whole_chicken_quantity_stock_balance''],
             [''2024-11'', ''100''], [''2024-12'', ''200''], [''2025-01'', ''300'']] = Some 300"
proof -
  let ?s = "sorted_desc (month_key ym) rows"
  from assms(1) have ne: "?s \<noteq> []" by (simp add: sorted_desc_Nil_iff)
  then obtain r rest where s: "?s = r # rest" by (cases ?s) auto
  then have hd: "hd ?s = r" by simp
  have "r \<in> set ?s" using s by simp
  then have mem: "r \<in> set rows" by (simp add: sorted_desc_set)
  have great: "\<forall>r' \<in> set rows. month_key ym r' \<le> month_key ym r"
    using hd_sorted_desc_greatest [OF assms(1), of "month_key ym"] hd by simp
  have sel: "select_row ym cur rows = (if ym < length r then Some r else None)"
    using find_month_row_no_match [OF assms(4)] s by (simp add: select_row_def)
  have len: "\<not> length (headers # rows) < 2" using assms(1) by (cases rows) auto
  have bal: "balance_of_column column cur (headers # rows) =
               (if ym < length r \<and> b < length r then py_float (r ! b) else None)"
    using assms(2,3) sel len by (simp add: balance_of_column_def)
  have ex: "get_inventory_balance ''2025-02''
            [[''year_month'', ''whole_chicken_quantity_stock_balance''],
             [''2024-11'', ''100''], [''2024-12'', ''200''], [''2025-01'', ''300'']] = Some 300"
    by code_simp
  from mem great bal ex show ?thesis by blast
qed

theorem C6_witness:
  "\<exists>r \<in> set [[''2024-11'', ''100''], [''2024-12'', ''200''], [''2025-01'', ''300'']].
      (\<forall>r' \<in> set [[''2024-11'', ''100''], [''2024-12'', ''200''], [''2025-01'', ''300'']].
          month_key 0 r' \<le> month_key 0 r)
      \<and> balance_of_column ''whole_chicken_quantity_stock_balance'' ''2025-02''
           ([''year_month'', ''whole_chicken_quantity_stock_balance'']
            # [[''2024-11'', ''100''], [''2024-12'', ''200''], [''2025-01'', ''300'']]) =
          (if 0 < length r \<and> 1 < length r then py_float (r ! 1) else None)"
proof -
  have a: "[[''2024-11'', ''100''], [''2024-12'', ''200''], [''2025-01'', ''300'']] \<noteq> []"
    by simp
  have b: "index_of ''whole_chicken_quantity_stock_balance''
             [''year_month'', ''whole_chicken_quantity_stock_balance''] = Some 1"
    by code_simp
  have c: "index_of ''year_month'' [''year_month'', ''whole_chicken_quantity_stock_balance''] = Some 0"
    by code_simp
  have d: "\<forall>r \<in> set [[''2024-11'', ''100''], [''2024-12'', ''200''], [''2025-01'', ''300'']].
             \<not> (0 < length r \<and> r ! 0 = ''2025-02'')"
    by code_simp
  from C6_fallback_takes_greatest_month [OF a b c d] show ?thesis by blast
qed

subsection \<open>Total pieces\<close>

text \<open>
  C2: the value \<open>1,234\<close> passes the digit test, made without the commas, but the
  conversion is applied to the value with its comma and raises \<open>ValueError\<close>, which
  is caught: the column adds nothing to the total, where \<open>1234\<close> adds 1234.
\<close>

theorem C2_value_with_separators_adds_nothing:
  "isdigit (remove_commas (strip ''1,234''))
   \<and> calculate_total_pieces [[''Specification'', ''Breast''], [''Balance'', ''1,234'']] = Some 0
   \<and> calculate_total_pieces [[''Specification'', ''Breast''], [''Balance'', ''1234'']] = Some 1234"
  by code_simp

subsection \<open>The saves at the end of a run\<close>









text \<open>
  C1: both fetches succeed; the stock header row has three cells and the value row two,
  and the parts value differs from the stored one. Building the alert raises
  \<open>IndexError\<close>, which \<open>send_combined_alert\<close> does not catch, the run ends in the
  handler of \<open>main\<close>, and none of the four files is written: the parts file keeps its
  previous snapshot and the other three stay absent.
\<close>

theorem C1_alert_error_skips_all_saves:
  "(case main_try (Some ''hook'')
          [[''Specification'', ''Breast'', ''Wing''], [''Balance'', ''10'']]
          [[''Parts Type'', ''Liver''], [''Balance'', ''6'']] [] ''2025-02'' True
          (Map.empty(PARTS_STATE_FILE \<mapsto> of_table [[''Parts Type'', ''Liver''], [''Balance'', ''5'']]))
    of (result, st') \<Rightarrow>
      (result, st' STOCK_STATE_FILE, st' PARTS_STATE_FILE, st' WHOLE_CHICKEN_DIFF_STATE_FILE,
       st' GIZZARD_DIFF_STATE_FILE))
   = (Inl IndexError, None, Some (of_table [[''Parts Type'', ''Liver''], [''Balance'', ''5'']]),
      None, None)"
  by code_simp

theorem C1_witness:
  "fst (main_try (Some ''hook'')
          [[''Specification'', ''Breast'', ''Wing''], [''Balance'', ''10'']]
          [[''Parts Type'', ''Liver''], [''Balance'', ''6'']] [] ''2025-02'' True
          (Map.empty(PARTS_STATE_FILE \<mapsto> of_table [[''Parts Type'', ''Liver''], [''Balance'', ''5'']])))
     = Inl IndexError
   \<and> main (Some ''hook'')
          [[''Specification'', ''Breast'', ''Wing''], [''Balance'', ''10'']]
          [[''Parts Type'', ''Liver''], [''Balance'', ''6'']] [] ''2025-02'' True
          (Map.empty(PARTS_STATE_FILE \<mapsto> of_table [[''Parts Type'', ''Liver''], [''Balance'', ''5'']]))
          PARTS_STATE_FILE
     = Some (of_table [[''Parts Type'', ''Liver''], [''Balance'', ''5'']])"
  using C1_alert_error_skips_all_saves
  by (simp add: case_prod_beta main_def)

end
